theory Spec2Isabelle
  imports Complex_Main
begin

section \<open>Adversarial embedding estimator (art/estimators/embedding/keras.py)\<close>

text \<open>
  A shallow embedding of \<^verbatim>\<open>KerasAdversarialEmbedding\<close>. Python exceptions are values of
  the type \<open>error\<close>; a method that can raise returns \<open>error + 'a\<close> with \<open>Inl\<close> the
  exception. Float arrays are arrays of reals (only comparisons are made on them, no
  arithmetic; NaN is not modelled). The framework (Keras), the backdoor transform and the
  inherited pre- and postprocessing are collaborators that are not part of this file of the
  repository: they are parameters of the model and may themselves raise.
\<close>

subsection \<open>Exceptions and arrays\<close>

datatype error =
    AttributeError
  | IndexError
  | AxisError
  | TypeError
  | ValueError
  | DanglingReference
  | FrameworkError string

text \<open>
  A numpy array of rank one or two: \<open>A1\<close> holds the entries of a vector, \<open>A2\<close> the rows of
  a matrix (all rows of one array have the same length). Indexing the first axis yields an
  \<open>item\<close>: a scalar of a vector, a row of a matrix.
\<close>

datatype 'a nd = A1 "'a list" | A2 "'a list list"

datatype item = Scalar real | Row "real list"

fun nd_len :: "'a nd \<Rightarrow> nat" where
  "nd_len (A1 xs) = length xs"
| "nd_len (A2 rs) = length rs"

text \<open>\<^verbatim>\<open>a[i]\<close> for an integer \<open>i\<close> in range; numpy raises IndexError otherwise.\<close>

fun nd_get :: "real nd \<Rightarrow> nat \<Rightarrow> error + item" where
  "nd_get (A1 xs) i = (if i < length xs then Inr (Scalar (xs ! i)) else Inl IndexError)"
| "nd_get (A2 rs) i = (if i < length rs then Inr (Row (rs ! i)) else Inl IndexError)"

text \<open>
  \<^verbatim>\<open>a[i] = v\<close>: the value is broadcast to the shape of \<open>a[i]\<close>. A scalar fills a row, a
  row of the same length replaces it, a row of length one is broadcast, any other row raises
  ValueError.
\<close>

fun nd_set :: "real nd \<Rightarrow> nat \<Rightarrow> item \<Rightarrow> error + real nd" where
  "nd_set (A1 xs) i (Scalar v) =
     (if i < length xs then Inr (A1 (xs[i := v])) else Inl IndexError)"
| "nd_set (A1 xs) i (Row r) =
     (if i < length xs
      then (if length r = 1 then Inr (A1 (xs[i := hd r])) else Inl ValueError)
      else Inl IndexError)"
| "nd_set (A2 rs) i (Scalar v) =
     (if i < length rs then Inr (A2 (rs[i := replicate (length (rs ! i)) v]))
      else Inl IndexError)"
| "nd_set (A2 rs) i (Row r) =
     (if i < length rs
      then (if length r = length (rs ! i) then Inr (A2 (rs[i := r]))
            else if length r = 1 then Inr (A2 (rs[i := replicate (length (rs ! i)) (hd r)]))
            else Inl ValueError)
      else Inl IndexError)"

text \<open>\<^verbatim>\<open>a[mask]\<close> for a boolean vector \<open>mask\<close> of the length of \<open>a\<close>: a new array.\<close>

definition mask_select :: "'a list \<Rightarrow> bool list \<Rightarrow> 'a list" where
  "mask_select xs bs = map fst (filter snd (zip xs bs))"

fun nd_select :: "'a nd \<Rightarrow> bool list \<Rightarrow> 'a nd" where
  "nd_select (A1 xs) bs = A1 (mask_select xs bs)"
| "nd_select (A2 rs) bs = A2 (mask_select rs bs)"

fun collect :: "(error + 'a) list \<Rightarrow> error + 'a list" where
  "collect [] = Inr []"
| "collect (Inl e # rs) = Inl e"
| "collect (Inr v # rs) = (case collect rs of Inl e \<Rightarrow> Inl e | Inr vs \<Rightarrow> Inr (v # vs))"

text \<open>
  \<^verbatim>\<open>r == t\<close> along the last axis, with numpy's broadcasting: equal lengths compare
  entry by entry, a length of one is stretched, other shapes do not broadcast (no mask is
  produced; modelled as ValueError).
\<close>

definition broadcast_eq :: "real list \<Rightarrow> real list \<Rightarrow> error + bool list" where
  "broadcast_eq r t =
     (if length r = length t then Inr (map (\<lambda>(a, b). a = b) (zip r t))
      else if length t = 1 then Inr (map (\<lambda>a. a = hd t) r)
      else if length r = 1 then Inr (map (\<lambda>b. hd r = b) t)
      else Inl ValueError)"

text \<open>\<^verbatim>\<open>y == target\<close> for a target vector: a mask of the rank of \<open>y\<close>.\<close>

fun np_equal :: "real nd \<Rightarrow> real list \<Rightarrow> error + bool nd" where
  "np_equal (A1 ys) t =
     (case broadcast_eq ys t of Inl e \<Rightarrow> Inl e | Inr bs \<Rightarrow> Inr (A1 bs))"
| "np_equal (A2 rs) t =
     (case collect (map (\<lambda>r. broadcast_eq r t) rs) of
        Inl e \<Rightarrow> Inl e
      | Inr bss \<Rightarrow> Inr (A2 bss))"

text \<open>\<^verbatim>\<open>np.all(m, axis=1)\<close>: a vector has no axis 1 (numpy raises AxisError).\<close>

fun np_all_axis1 :: "bool nd \<Rightarrow> error + bool list" where
  "np_all_axis1 (A1 bs) = Inl AxisError"
| "np_all_axis1 (A2 bss) = Inr (map (list_all (\<lambda>b. b)) bss)"

text \<open>
  \<^verbatim>\<open>sel[mask] = vals\<close>: the \<open>k\<close>-th true position of \<open>mask\<close> receives the \<open>k\<close>-th value.
\<close>

fun assign_masked :: "bool list \<Rightarrow> bool list \<Rightarrow> bool list \<Rightarrow> bool list" where
  "assign_masked (s # ss) (m # ms) vs =
     (if m then (case vs of [] \<Rightarrow> s # assign_masked ss ms []
                 | v # vs' \<Rightarrow> v # assign_masked ss ms vs')
      else s # assign_masked ss ms vs)"
| "assign_masked ss ms vs = ss"

definition count_true :: "bool list \<Rightarrow> nat" where
  "count_true bs = length (filter (\<lambda>b. b) bs)"

text \<open>
  Lines 197 and 199 of \<^verbatim>\<open>fit\<close>. The outcome of \<^verbatim>\<open>np.random.uniform\<close> is the
  sequence \<open>us\<close>: the call with \<open>size=k\<close> returns \<open>us 0, ..., us (k - 1)\<close>. A boolean mask
  whose length is not that of the indexed array raises IndexError.
\<close>

definition select_indices :: "real \<Rightarrow> (nat \<Rightarrow> real) \<Rightarrow> nat \<Rightarrow> bool list \<Rightarrow> error + bool list" where
  "select_indices pp us n not_target =
     (if length not_target \<noteq> n then Inl IndexError
      else Inr (assign_masked (replicate n False) not_target
                  (map (\<lambda>u. u < pp) (map us [0..<count_true not_target]))))"

text \<open>\<^verbatim>\<open>np.eye(2)\<close>; row 0 marks a clean sample, row 1 a poisoned one.\<close>

definition eye2 :: "real list list" where
  "eye2 = [[1, 0], [0, 1]]"

subsection \<open>The store\<close>

text \<open>
  Arrays are objects with identity: the store is the list of all arrays allocated so far,
  a reference is an index into it. Allocation appends, so a new array never shares its
  reference with an older one; an assignment into an array updates the store at its
  reference. Python has no dangling references: \<open>DanglingReference\<close> is returned only
  for an index that is no reference of the store.
\<close>

type_synonym heap = "real nd list"

definition alloc :: "heap \<Rightarrow> real nd \<Rightarrow> nat \<times> heap" where
  "alloc h v = (length h, h @ [v])"

definition deref :: "heap \<Rightarrow> nat \<Rightarrow> error + real nd" where
  "deref h a = (if a < length h then Inr (h ! a) else Inl DanglingReference)"

subsection \<open>The estimator instance and its collaborators\<close>

text \<open>
  The attributes of the instance that the methods read or write. \<open>train_data\<close>,
  \<open>train_labels\<close> and \<open>is_backdoor\<close> are \<open>None\<close> while the attribute does not exist.
  \<open>backdoor\<close> is the caller's transform, called as \<^verbatim>\<open>poison(x, y=target, broadcast=True)\<close>.
  \<open>weights\<close> stands for the parameters of the combined model.
\<close>

record 'w estimator =
  target :: "real list"
  pp_poison :: real
  regularization :: real
  verbose :: bool
  detect_threshold :: real
  backdoor :: "real nd \<Rightarrow> real list \<Rightarrow> error + (real nd \<times> real nd)"
  discriminator_input :: "real list \<Rightarrow> real list"
  compiled_loss :: "string \<rightharpoonup> string"
  compiled_loss_weights :: "string \<rightharpoonup> real"
  weights :: 'w
  train_data :: "nat option"
  train_labels :: "nat option"
  is_backdoor :: "nat option"

text \<open>
  The framework calls: \<open>embed_fit w x [y, b] batch_size epochs\<close> is
  \<^verbatim>\<open>embed_model.fit\<close> and returns the trained parameters, \<open>embed_predict w x batch_size\<close>
  is \<^verbatim>\<open>embed_model.predict\<close> and returns the task and the backdoor predictions;
  \<open>apply_preprocessing\<close> and \<open>apply_postprocessing\<close> are the inherited defence chains.
\<close>

record 'w env =
  embed_fit :: "'w \<Rightarrow> real nd \<Rightarrow> real nd \<Rightarrow> real nd \<Rightarrow> nat \<Rightarrow> nat \<Rightarrow> error + 'w"
  embed_predict :: "'w \<Rightarrow> real nd \<Rightarrow> nat \<Rightarrow> error + (real nd \<times> real nd)"
  apply_preprocessing :: "real nd \<Rightarrow> error + real nd"
  apply_postprocessing :: "real nd \<Rightarrow> error + real nd"

subsection \<open>fit\<close>

text \<open>
  Lines 208 to 211: \<^verbatim>\<open>for i, idx in enumerate(poison_idxs)\<close> writes row \<open>i\<close> of the
  transform's output into row \<open>idx\<close> of the arrays at the references \<open>ta\<close> and \<open>la\<close>.
\<close>

fun poison_loop ::
  "real nd \<Rightarrow> real nd \<Rightarrow> nat \<Rightarrow> nat \<Rightarrow> (nat \<times> nat) list \<Rightarrow> heap \<Rightarrow> (error + unit) \<times> heap" where
  "poison_loop pd pl ta la [] h = (Inr (), h)"
| "poison_loop pd pl ta la ((i, idx) # rest) h =
     (case nd_get pd i of Inl e \<Rightarrow> (Inl e, h) | Inr d \<Rightarrow>
     (case deref h ta of Inl e \<Rightarrow> (Inl e, h) | Inr td \<Rightarrow>
     (case nd_set td idx d of Inl e \<Rightarrow> (Inl e, h) | Inr td' \<Rightarrow>
     (case nd_get pl i of Inl e \<Rightarrow> (Inl e, h[ta := td']) | Inr l \<Rightarrow>
     (case deref (h[ta := td']) la of Inl e \<Rightarrow> (Inl e, h[ta := td']) | Inr lb \<Rightarrow>
     (case nd_set lb idx l of Inl e \<Rightarrow> (Inl e, h[ta := td']) | Inr lb' \<Rightarrow>
        poison_loop pd pl ta la rest (h[ta := td', la := lb'])))))))"

text \<open>
  Lines 197 to 214 of \<^verbatim>\<open>fit\<close>: the arrays at \<open>xa\<close> and \<open>ya\<close> are the caller's \<open>x\<close> and
  \<open>y\<close>. The result is the references of \<open>train_data\<close>, \<open>train_labels\<close> and \<open>is_backdoor\<close>.
\<close>

definition fit_poison_batch ::
  "(real nd \<Rightarrow> real list \<Rightarrow> error + (real nd \<times> real nd)) \<Rightarrow> real list \<Rightarrow> real \<Rightarrow>
   (nat \<Rightarrow> real) \<Rightarrow> heap \<Rightarrow> nat \<Rightarrow> nat \<Rightarrow> (error + (nat \<times> nat \<times> nat)) \<times> heap" where
  "fit_poison_batch bd tgt pp us h xa ya =
     (case deref h xa of Inl e \<Rightarrow> (Inl e, h) | Inr x \<Rightarrow>
     (case deref h ya of Inl e \<Rightarrow> (Inl e, h) | Inr y \<Rightarrow>
     (case np_equal y tgt of Inl e \<Rightarrow> (Inl e, h) | Inr eq \<Rightarrow>
     (case np_all_axis1 eq of Inl e \<Rightarrow> (Inl e, h) | Inr is_target \<Rightarrow>
     (case select_indices pp us (nd_len x) (map Not is_target) of
        Inl e \<Rightarrow> (Inl e, h)
      | Inr selected_indices \<Rightarrow>
     (let (ta, h1) = alloc h x;
          (la, h2) = alloc h1 y
      in
     (case deref h2 ta of Inl e \<Rightarrow> (Inl e, h2) | Inr td \<Rightarrow>
     (case bd (nd_select td selected_indices) tgt of
        Inl e \<Rightarrow> (Inl e, h2)
      | Inr (poison_data, poison_labels) \<Rightarrow>
     (let poison_idxs = mask_select [0..<nd_len x] selected_indices in
     (case poison_loop poison_data poison_labels ta la
             (zip [0..<length poison_idxs] poison_idxs) h2 of
        (Inl e, h3) \<Rightarrow> (Inl e, h3)
      | (Inr u, h3) \<Rightarrow>
     (let isin = map (\<lambda>i. if i \<in> set poison_idxs then 1 else 0 :: nat) [0..<nd_len x];
          (ia, h4) = alloc h3 (A2 (map (\<lambda>k. eye2 ! k) isin))
      in (Inr (ta, la, ia), h4))))))))))))"

text \<open>
  \<^verbatim>\<open>fit\<close>: lines 197 to 214 as above, then line 217 stores the three references on the
  instance and line 220 calls the framework's training.
\<close>

definition fit ::
  "'w env \<Rightarrow> 'w estimator \<Rightarrow> (nat \<Rightarrow> real) \<Rightarrow> heap \<Rightarrow> nat \<Rightarrow> nat \<Rightarrow> nat \<Rightarrow> nat \<Rightarrow>
   (error + unit) \<times> 'w estimator \<times> heap" where
  "fit env est us h xa ya batch_size nb_epochs =
     (case fit_poison_batch (backdoor est) (target est) (pp_poison est) us h xa ya of
        (Inl e, h') \<Rightarrow> (Inl e, est, h')
      | (Inr (ta, la, ia), h') \<Rightarrow>
          let est' = est\<lparr>train_data := Some ta, train_labels := Some la, is_backdoor := Some ia\<rparr>
          in (case embed_fit env (weights est) (h' ! ta) (h' ! la) (h' ! ia) batch_size nb_epochs of
                Inl e \<Rightarrow> (Inl e, est', h')
              | Inr w \<Rightarrow> (Inr (), est'\<lparr>weights := w\<rparr>, h')))"

text \<open>\<^verbatim>\<open>get_training_data\<close>: reading an attribute that does not exist raises.\<close>

definition get_training_data :: "'w estimator \<Rightarrow> error + (nat \<times> nat \<times> nat)" where
  "get_training_data est =
     (case train_data est of None \<Rightarrow> Inl AttributeError | Some ta \<Rightarrow>
     (case train_labels est of None \<Rightarrow> Inl AttributeError | Some la \<Rightarrow>
     (case is_backdoor est of None \<Rightarrow> Inl AttributeError | Some ia \<Rightarrow> Inr (ta, la, ia))))"

subsection \<open>predict\<close>

text \<open>
  A record of the logger: a text message, or an array passed as the message.
\<close>

datatype log_msg = Msg string | Arr "nat list"

definition digit_char :: "nat \<Rightarrow> char" where
  "digit_char d = ''0123456789'' ! d"

text \<open>Python's \<^verbatim>\<open>str\<close> on an integer: its decimal digits.\<close>

function str_nat :: "nat \<Rightarrow> string" where
  "str_nat n = (if n < 10 then [digit_char n] else str_nat (n div 10) @ [digit_char (n mod 10)])"
  by pat_completeness auto
termination
  by (relation "measure (\<lambda>n. n)") auto

definition str_int :: "int \<Rightarrow> string" where
  "str_int i = (if i < 0 then CHR ''-'' # str_nat (nat (- i)) else str_nat (nat i))"

text \<open>\<^verbatim>\<open>a > c\<close> for a scalar \<open>c\<close>, \<^verbatim>\<open>np.any\<close> and \<^verbatim>\<open>np.sum\<close> of a mask.\<close>

fun nd_greater :: "real nd \<Rightarrow> real \<Rightarrow> bool nd" where
  "nd_greater (A1 xs) c = A1 (map (\<lambda>v. v > c) xs)"
| "nd_greater (A2 rs) c = A2 (map (map (\<lambda>v. v > c)) rs)"

fun nd_entries :: "'a nd \<Rightarrow> 'a list" where
  "nd_entries (A1 xs) = xs"
| "nd_entries (A2 rs) = concat rs"

definition np_any :: "bool nd \<Rightarrow> bool" where
  "np_any m = list_ex (\<lambda>b. b) (nd_entries m)"

definition np_sum :: "bool nd \<Rightarrow> nat" where
  "np_sum m = count_true (nd_entries m)"

text \<open>
  \<^verbatim>\<open>v[mask]\<close> for a vector \<open>v\<close>: a boolean mask takes as many axes of the indexed array
  as it has itself, so a mask of rank two on a vector raises IndexError (too many indices),
  as does a mask of another length.
\<close>

fun vector_mask_index :: "'a list \<Rightarrow> bool nd \<Rightarrow> error + 'a list" where
  "vector_mask_index v (A1 bs) =
     (if length bs = length v then Inr (mask_select v bs) else Inl IndexError)"
| "vector_mask_index v (A2 bss) = Inl IndexError"

text \<open>
  \<^verbatim>\<open>predict\<close>, lines 233 to 246. The result is the returned value or the exception
  raised, and the warnings logged up to there. The arguments of a call are evaluated before
  the call, so the index expression of line 242 is evaluated before anything is logged there.
\<close>

definition predict ::
  "'w env \<Rightarrow> 'w estimator \<Rightarrow> real nd \<Rightarrow> nat \<Rightarrow> (error + real nd) \<times> log_msg list" where
  "predict env est x batch_size =
     (case apply_preprocessing env x of Inl e \<Rightarrow> (Inl e, []) | Inr x_preprocessed \<Rightarrow>
     (case embed_predict env (weights est) x_preprocessed batch_size of
        Inl e \<Rightarrow> (Inl e, [])
      | Inr (task_predictions, backdoor_predictions) \<Rightarrow>
          if verbose est then
            (let suspected_backdoors = nd_greater backdoor_predictions (detect_threshold est) in
             if np_any suspected_backdoors then
               (let num_suspected_backdoors = np_sum suspected_backdoors;
                    logged = [Msg (''Found '' @ str_nat num_suspected_backdoors @
                                   '' suspected backdoors in prediction''),
                              Msg ''Suspected indices:'']
                in case vector_mask_index [0..<nd_len backdoor_predictions] suspected_backdoors of
                     Inl e \<Rightarrow> (Inl e, logged)
                   | Inr idxs \<Rightarrow> (apply_postprocessing env task_predictions, logged @ [Arr idxs]))
             else (apply_postprocessing env task_predictions, []))
          else (apply_postprocessing env task_predictions, [])))"

subsection \<open>Gradient accessors\<close>

text \<open>
  The base classifier's methods \<^verbatim>\<open>KerasClassifier.loss_gradient\<close> and
  \<^verbatim>\<open>KerasClassifier.class_gradient\<close> are parameters. The argument \<open>label\<close> is an
  integer, a list of integers or \<^verbatim>\<open>None\<close>.
\<close>

datatype label = NoLabel | LabelInt int | LabelList "int list"

record 'w keras_classifier =
  base_loss_gradient :: "'w \<Rightarrow> real nd \<Rightarrow> real nd \<Rightarrow> error + real nd"
  base_class_gradient :: "'w \<Rightarrow> real nd \<Rightarrow> label \<Rightarrow> error + real nd"

text \<open>Line 264: \<^verbatim>\<open>return KerasClassifier.loss_gradient(self, x, y, **kwargs)\<close>.\<close>

definition loss_gradient ::
  "'w keras_classifier \<Rightarrow> 'w estimator \<Rightarrow> real nd \<Rightarrow> real nd \<Rightarrow> error + real nd" where
  "loss_gradient base est x y = base_loss_gradient base (weights est) x y"

text \<open>
  Line 279: \<^verbatim>\<open>raise KerasClassifier.class_gradient(self, x, label, **kwargs)\<close>. The
  operand is evaluated first: an exception of the call propagates; a returned array is then
  the operand of \<^verbatim>\<open>raise\<close>, and raising an object that is no exception is a TypeError.
\<close>

definition class_gradient ::
  "'w keras_classifier \<Rightarrow> 'w estimator \<Rightarrow> real nd \<Rightarrow> label \<Rightarrow> error + real nd" where
  "class_gradient base est x lab =
     (case base_class_gradient base (weights est) x lab of
        Inl e \<Rightarrow> Inl e
      | Inr gradients \<Rightarrow> Inl TypeError)"

subsection \<open>Construction\<close>

text \<open>
  The base model as the constructor reads it: its name, its layers (each with the function
  from the model's input to that layer's output), its loss, the list \<^verbatim>\<open>model.losses\<close>
  and the output tensors \<^verbatim>\<open>model.outputs\<close> (by name).
\<close>

record layer =
  layer_name :: string
  layer_output :: "real list \<Rightarrow> real list"

record base_model =
  model_name :: string
  model_layers :: "layer list"
  model_loss :: string
  model_losses :: "string list"
  model_outputs :: "string list"

text \<open>The argument \<open>feature_layer\<close> is an index or a name.\<close>

datatype layer_ref = LayerIndex int | LayerName string

text \<open>
  \<^verbatim>\<open>__init__\<close>, lines 140 to 175. \<open>unpack\<close> is the framework's answer to unpacking an
  output tensor into a pair in \<^verbatim>\<open>for i, loss in model.outputs\<close>. A dictionary is a map;
  of two equal keys the later one stays. What is passed to \<^verbatim>\<open>compile\<close> is kept in
  \<open>compiled_loss\<close> and \<open>compiled_loss_weights\<close>; the sub-model of line 142, whose output
  goes to the discriminator, in \<open>discriminator_input\<close>. The discriminator's own layers
  (lines 145 to 152) are built by the framework: noise, two dense blocks and
  \<^verbatim>\<open>Dense(2, activation='softmax')\<close>, so the backdoor prediction of a batch is an array of
  rank two with two columns. Their parameters are part of \<open>weights\<close>.
\<close>

text \<open>
  Modelled from the spec: the inherited constructors (\<^verbatim>\<open>AdversarialEmbeddingMixin\<close>,
  \<^verbatim>\<open>KerasClassifier\<close>), called in lines 114 to 134, are missing from the source at hand.
  They are taken to store the arguments under their names and to create no attribute
  \<open>train_data\<close>, \<open>train_labels\<close> or \<open>is_backdoor\<close> (\<open>get_training_data\<close> fails
  before the first \<open>fit\<close>); lines 140 to 175 assign none of the three either.
\<close>

definition init ::
  "(string \<Rightarrow> error + (int \<times> string)) \<Rightarrow> base_model \<Rightarrow> layer_ref \<Rightarrow>
   (real nd \<Rightarrow> real list \<Rightarrow> error + (real nd \<times> real nd)) \<Rightarrow> real list \<Rightarrow> real \<Rightarrow> real \<Rightarrow>
   bool \<Rightarrow> real \<Rightarrow> 'w \<Rightarrow> error + 'w estimator" where
  "init unpack model feature_layer bd tgt pp reg verb threshold w0 =
     (if length (model_layers model) \<le> 5 then Inl IndexError
      else
        (let feature_layer_output = layer_output (model_layers model ! 5);
             name = model_name model
         in case (if model_losses model = []
                  then Inr [name \<mapsto> model_loss model,
                            ''backdoor_detect'' \<mapsto> ''binary_crossentropy'']
                  else (case collect (map unpack (model_outputs model)) of
                          Inl e \<Rightarrow> Inl e
                        | Inr ps \<Rightarrow>
                            Inr ((map_of (rev (map (\<lambda>(i, loss). (''output_'' @ str_int (i + 1), loss)) ps)))
                                   (''backdoor_detect'' \<mapsto> ''binary_crossentropy'')))) of
              Inl e \<Rightarrow> Inl e
            | Inr losses \<Rightarrow>
                Inr \<lparr>target = tgt, pp_poison = pp, regularization = reg, verbose = verb,
                     detect_threshold = threshold, backdoor = bd,
                     discriminator_input = feature_layer_output,
                     compiled_loss = losses,
                     compiled_loss_weights = [name \<mapsto> 1, ''backdoor_detect'' \<mapsto> - reg],
                     weights = w0,
                     train_data = None, train_labels = None, is_backdoor = None\<rparr>))"

subsection \<open>Example inputs\<close>

text \<open>
  Concrete inputs on which the model is run below: a transform that adds 10 to every entry
  and labels every row with the target, an estimator with target \<open>[0, 1]\<close> and
  \<open>pp_poison = 1/2\<close>, a framework whose training counts epochs (or fails), three
  samples of which the second carries the target label, and draws that select the first
  eligible sample only. \<open>ex_heap'\<close> is the store after \<open>fit\<close> on these inputs.
  \<open>ex_backdoor_strict\<close> is the same transform with the guard of the toolbox's
  \<^verbatim>\<open>PoisoningAttackBackdoor.poison\<close>, which refuses an empty batch with a ValueError.
  \<open>ex_model_regularised\<close> is the base model with one additional loss in
  \<^verbatim>\<open>model.losses\<close> (a layer with a regulariser); \<open>ex_unpack\<close> is the framework refusing
  to unpack a tensor, \<open>ex_unpack_accepting\<close> a framework that would hand out a pair.
\<close>

definition ex_backdoor :: "real nd \<Rightarrow> real list \<Rightarrow> error + (real nd \<times> real nd)" where
  "ex_backdoor x t =
     Inr (case x of A1 xs \<Rightarrow> A1 (map (\<lambda>v. v + 10) xs) | A2 rs \<Rightarrow> A2 (map (map (\<lambda>v. v + 10)) rs),
          A2 (replicate (nd_len x) t))"

definition ex_estimator :: "nat estimator" where
  "ex_estimator =
     \<lparr>target = [0, 1], pp_poison = 1 / 2, regularization = 10, verbose = False,
      detect_threshold = 4 / 5, backdoor = ex_backdoor, discriminator_input = (\<lambda>v. v),
      compiled_loss = Map.empty, compiled_loss_weights = Map.empty, weights = 0,
      train_data = None, train_labels = None, is_backdoor = None\<rparr>"

definition ex_env :: "nat env" where
  "ex_env =
     \<lparr>embed_fit = (\<lambda>w x y b batch_size epochs. Inr (w + epochs)),
      embed_predict = (\<lambda>w x batch_size. Inr (A2 [[3 / 10, 7 / 10]], A2 [[1 / 10, 9 / 10]])),
      apply_preprocessing = Inr, apply_postprocessing = Inr\<rparr>"

definition ex_env_failing :: "nat env" where
  "ex_env_failing = ex_env\<lparr>embed_fit := (\<lambda>w x y b batch_size epochs. Inl (FrameworkError ''training failed''))\<rparr>"

definition ex_heap :: heap where
  "ex_heap = [A2 [[1], [2], [3]], A2 [[1, 0], [0, 1], [1, 0]]]"

definition ex_heap' :: heap where
  "ex_heap' = ex_heap @ [A2 [[11], [2], [3]], A2 [[0, 1], [0, 1], [1, 0]], A2 [[0, 1], [1, 0], [1, 0]]]"

definition ex_draws :: "nat \<Rightarrow> real" where
  "ex_draws j = (if j = 0 then 1 / 4 else 3 / 4)"

definition ex_base :: "nat keras_classifier" where
  "ex_base = \<lparr>base_loss_gradient = (\<lambda>w x y. Inr x), base_class_gradient = (\<lambda>w x lab. Inr x)\<rparr>"

definition ex_model :: base_model where
  "ex_model =
     \<lparr>model_name = ''model_1'',
      model_layers = map (\<lambda>k. \<lparr>layer_name = ''layer_'' @ str_nat k,
                                layer_output = map (\<lambda>v. v + real k)\<rparr>) [0..<8],
      model_loss = ''categorical_crossentropy'',
      model_losses = [],
      model_outputs = [''model_1/output'']\<rparr>"

definition ex_unpack :: "string \<Rightarrow> error + (int \<times> string)" where
  "ex_unpack t = Inl TypeError"

definition ex_backdoor_strict :: "real nd \<Rightarrow> real list \<Rightarrow> error + (real nd \<times> real nd)" where
  "ex_backdoor_strict x t = (if nd_len x = 0 then Inl ValueError else ex_backdoor x t)"

definition ex_model_regularised :: base_model where
  "ex_model_regularised = ex_model\<lparr>model_losses := [''dense_1/kernel_regularizer'']\<rparr>"

definition ex_unpack_accepting :: "string \<Rightarrow> error + (int \<times> string)" where
  "ex_unpack_accepting t = Inr (0, ''mse'')"

section \<open>Properties\<close>

subsection \<open>Masks and arrays\<close>

lemma assign_masked_length: "length (assign_masked ss ms vs) = length ss"
  by (induction ss ms vs rule: assign_masked.induct) (auto split: list.splits)

lemma assign_masked_unmasked:
  "length ss = length ms \<Longrightarrow> i < length ss \<Longrightarrow> \<not> ms ! i \<Longrightarrow> assign_masked ss ms vs ! i = ss ! i"
proof (induction ss ms vs arbitrary: i rule: assign_masked.induct)
  case (1 s ss m ms vs)
  then show ?case by (cases i) (auto split: list.splits)
qed auto

lemma assign_masked_all_false:
  "set vs \<subseteq> {False} \<Longrightarrow> set ss \<subseteq> {False} \<Longrightarrow> set (assign_masked ss ms vs) \<subseteq> {False}"
proof (induction ss arbitrary: ms vs)
  case Nil
  then show ?case by simp
next
  case (Cons s ss)
  show ?case
  proof (cases ms)
    case Nil
    with Cons.prems show ?thesis by simp
  next
    case ms: (Cons m ms')
    show ?thesis
    proof (cases vs)
      case Nil
      with Cons.prems Cons.IH[of "[]" ms'] ms show ?thesis by simp
    next
      case vs: (Cons v vs')
      with Cons.prems Cons.IH[of vs' ms'] Cons.IH[of vs ms'] ms show ?thesis by simp
    qed
  qed
qed

lemma all_false_replicate: "set bs \<subseteq> {False} \<Longrightarrow> bs = replicate (length bs) False"
  by (induction bs) auto

lemma mask_select_Nil: "mask_select xs (replicate n False) = []"
  by (auto simp: mask_select_def filter_empty_conv dest: set_zip_rightD)

lemma in_zip_upt: "length sel = n \<Longrightarrow> (i, b) \<in> set (zip [0..<n] sel) \<longleftrightarrow> i < n \<and> b = sel ! i"
proof
  assume "length sel = n" "(i, b) \<in> set (zip [0..<n] sel)"
  then show "i < n \<and> b = sel ! i" by (auto simp: in_set_zip)
next
  assume n: "length sel = n" and "i < n \<and> b = sel ! i"
  then have "[0..<n] ! i = fst (i, b) \<and> sel ! i = snd (i, b) \<and> i < length [0..<n] \<and> i < length sel"
    by simp
  then show "(i, b) \<in> set (zip [0..<n] sel)"
    unfolding in_set_zip by blast
qed

lemma set_mask_select_upt:
  assumes n: "length sel = n"
  shows "set (mask_select [0..<n] sel) = {i. i < n \<and> sel ! i}"
proof (rule set_eqI)
  fix i
  have "i \<in> set (mask_select [0..<n] sel) \<longleftrightarrow> (\<exists>b. (i, b) \<in> set (zip [0..<n] sel) \<and> b)"
    unfolding mask_select_def by (simp add: image_iff Bex_def)
  also have "\<dots> \<longleftrightarrow> i < n \<and> sel ! i"
    unfolding in_zip_upt[OF n] by blast
  finally show "i \<in> set (mask_select [0..<n] sel) \<longleftrightarrow> i \<in> {i. i < n \<and> sel ! i}"
    by simp
qed

lemma collect_map:
  "collect (map f rs) = Inr bss \<Longrightarrow> length bss = length rs \<and> (\<forall>i<length rs. f (rs ! i) = Inr (bss ! i))"
proof (induction rs arbitrary: bss)
  case Nil
  then show ?case by simp
next
  case (Cons r rs)
  then show ?case
    by (cases "f r") (auto split: sum.splits simp: nth_Cons split: nat.splits)
qed

lemma collect_all_Inr: "\<forall>r\<in>set rs. f r = Inr (g r) \<Longrightarrow> collect (map f rs) = Inr (map g rs)"
  by (induction rs) auto

lemma nd_set_len: "nd_set a i v = Inr a' \<Longrightarrow> nd_len a' = nd_len a"
  by (induction a i v rule: nd_set.induct) (auto split: if_splits)

lemma nd_set_other: "nd_set a i v = Inr a' \<Longrightarrow> j \<noteq> i \<Longrightarrow> nd_get a' j = nd_get a j"
  by (induction a i v rule: nd_set.induct) (auto split: if_splits)

lemma broadcast_eq_self: "broadcast_eq t t = Inr bs \<Longrightarrow> list_all (\<lambda>b. b) bs"
  by (auto simp: broadcast_eq_def list_all_iff set_zip)

lemma is_target_row:
  assumes "np_equal y tgt = Inr eq" "np_all_axis1 eq = Inr is_target"
    and "nd_get y i = Inr (Row tgt)"
  shows "i < length is_target \<and> is_target ! i \<and> length is_target = nd_len y"
proof -
  from assms(3) obtain ys where y: "y = A2 ys" and i: "i < length ys" "ys ! i = tgt"
    by (cases y) (auto split: if_splits)
  from assms(1) y obtain bss where c: "collect (map (\<lambda>r. broadcast_eq r tgt) ys) = Inr bss"
    and eq: "eq = A2 bss"
    by (auto split: sum.splits)
  from collect_map[OF c] i have l: "length bss = length ys" and "broadcast_eq tgt tgt = Inr (bss ! i)"
    by auto
  then have "list_all (\<lambda>b. b) (bss ! i)" by (simp add: broadcast_eq_self)
  with assms(2) eq l i y show ?thesis by auto
qed

lemma is_target_length:
  assumes "np_equal y tgt = Inr eq" "np_all_axis1 eq = Inr is_target"
  shows "length is_target = nd_len y"
proof (cases y)
  case (A1 ys)
  with assms show ?thesis by (auto split: sum.splits)
next
  case (A2 ys)
  with assms(1) obtain bss where c: "collect (map (\<lambda>r. broadcast_eq r tgt) ys) = Inr bss"
    and eq: "eq = A2 bss"
    by (auto split: sum.splits)
  from collect_map[OF c] assms(2) eq A2 show ?thesis by auto
qed

lemma not_target_mask_one_hot:
  assumes "\<forall>r\<in>set ys. length r = length tgt"
  shows "\<exists>eq is_target. np_equal (A2 ys) tgt = Inr eq \<and> np_all_axis1 eq = Inr is_target \<and>
           length is_target = length ys"
proof -
  have "collect (map (\<lambda>r. broadcast_eq r tgt) ys) = Inr (map (\<lambda>r. map (\<lambda>(a, b). a = b) (zip r tgt)) ys)"
    by (rule collect_all_Inr) (use assms in \<open>simp add: broadcast_eq_def\<close>)
  then show ?thesis by simp
qed

lemma select_indices_unmasked:
  assumes "select_indices pp us n nt = Inr sel" "i < n" "\<not> nt ! i"
  shows "length sel = n \<and> \<not> sel ! i"
  using assms assign_masked_unmasked[of "replicate n False" nt i]
  by (auto simp: select_indices_def assign_masked_length split: if_splits)

lemma select_indices_zero:
  assumes "\<forall>j. 0 \<le> us j" "length nt = n"
  shows "select_indices 0 us n nt = Inr (replicate n False)"
proof -
  let ?vals = "map (\<lambda>u. u < 0) (map us [0..<count_true nt])"
  have "\<not> us j < 0" for j using assms(1) by (simp add: not_less)
  then have "set ?vals \<subseteq> {False}" by auto
  then have "set (assign_masked (replicate n False) nt ?vals) \<subseteq> {False}"
    by (rule assign_masked_all_false) auto
  from all_false_replicate[OF this] have "assign_masked (replicate n False) nt ?vals = replicate n False"
    by (simp add: assign_masked_length)
  with assms(2) show ?thesis by (simp add: select_indices_def)
qed

lemma indicator_clean: "map ((!) eye2 \<circ> (\<lambda>i. 0)) [0..<n] = replicate n [1, 0]"
  by (simp add: eye2_def map_replicate_const o_def)

subsection \<open>The poisoning loop and the batch built by fit\<close>

lemma poison_loop_frame:
  "poison_loop pd pl ta la ps h = (r, h') \<Longrightarrow>
   length h' = length h \<and> (\<forall>a. a \<noteq> ta \<and> a \<noteq> la \<longrightarrow> h' ! a = h ! a)"
proof (induction pd pl ta la ps h rule: poison_loop.induct)
  case (1 pd pl ta la h)
  then show ?case by simp
next
  case (2 pd pl ta la i idx rest h)
  show ?case
  proof (cases "nd_get pd i")
    case (Inl e)
    with "2.prems" show ?thesis by simp
  next
    case d: (Inr d)
    show ?thesis
    proof (cases "deref h ta")
      case (Inl e)
      with "2.prems" d show ?thesis by simp
    next
      case td: (Inr td)
      show ?thesis
      proof (cases "nd_set td idx d")
        case (Inl e)
        with "2.prems" d td show ?thesis by simp
      next
        case td': (Inr td')
        show ?thesis
        proof (cases "nd_get pl i")
          case (Inl e)
          with "2.prems" d td td' show ?thesis by auto
        next
          case l: (Inr l)
          show ?thesis
          proof (cases "deref (h[ta := td']) la")
            case (Inl e)
            with "2.prems" d td td' l show ?thesis by auto
          next
            case lb: (Inr lb)
            show ?thesis
            proof (cases "nd_set lb idx l")
              case (Inl e)
              with "2.prems" d td td' l lb show ?thesis by auto
            next
              case lb': (Inr lb')
              from "2.prems" d td td' l lb lb'
              have "poison_loop pd pl ta la rest (h[ta := td', la := lb']) = (r, h')" by simp
              from "2.IH"[OF d td td' l lb lb' this] show ?thesis by auto
            qed
          qed
        qed
      qed
    qed
  qed
qed

lemma poison_loop_Cons_Inr:
  assumes "poison_loop pd pl ta la ((i, idx) # rest) h = (Inr u, h')"
  obtains d td td' l lb lb' where
    "nd_get pd i = Inr d" "deref h ta = Inr td" "nd_set td idx d = Inr td'"
    "nd_get pl i = Inr l" "deref (h[ta := td']) la = Inr lb" "nd_set lb idx l = Inr lb'"
    "poison_loop pd pl ta la rest (h[ta := td', la := lb']) = (Inr u, h')"
  using assms by (auto split: sum.splits)

lemma poison_loop_rows:
  "poison_loop pd pl ta la ps h = (Inr u, h') \<Longrightarrow> ta \<noteq> la \<Longrightarrow>
   nd_len (h' ! ta) = nd_len (h ! ta) \<and> nd_len (h' ! la) = nd_len (h ! la) \<and>
   (\<forall>j. j \<notin> snd ` set ps \<longrightarrow>
      nd_get (h' ! ta) j = nd_get (h ! ta) j \<and> nd_get (h' ! la) j = nd_get (h ! la) j)"
proof (induction ps arbitrary: h)
  case Nil
  then show ?case by simp
next
  case (Cons p ps)
  obtain i idx where p: "p = (i, idx)" by (cases p)
  from Cons.prems(1) have "poison_loop pd pl ta la ((i, idx) # ps) h = (Inr u, h')"
    unfolding p .
  then obtain d td td' l lb lb' where
    s: "deref h ta = Inr td" "nd_set td idx d = Inr td'"
       "deref (h[ta := td']) la = Inr lb" "nd_set lb idx l = Inr lb'"
       and rest: "poison_loop pd pl ta la ps (h[ta := td', la := lb']) = (Inr u, h')"
    by (rule poison_loop_Cons_Inr)
  let ?h = "h[ta := td', la := lb']"
  from s have ta: "ta < length h" "td = h ! ta" and la: "la < length h" "lb = h ! la"
    using Cons.prems(2) by (auto simp: deref_def split: if_splits)
  have hta: "?h ! ta = td'" and hla: "?h ! la = lb'"
    using ta la Cons.prems(2) by simp_all
  note IH = Cons.IH[OF rest Cons.prems(2)]
  have len: "nd_len td' = nd_len (h ! ta)" "nd_len lb' = nd_len (h ! la)"
    using s ta la nd_set_len by auto
  have other: "\<And>j. j \<noteq> idx \<Longrightarrow> nd_get td' j = nd_get (h ! ta) j \<and> nd_get lb' j = nd_get (h ! la) j"
    using s ta la nd_set_other by auto
  show ?case
    using IH len other unfolding hta hla p by auto
qed

lemma fit_poison_batch_Inr:
  assumes "fit_poison_batch bd tgt pp us h xa ya = (Inr (ta, la, ia), h')"
  obtains x y eq is_target sel pd pl h3 where
    "deref h xa = Inr x" "deref h ya = Inr y"
    "np_equal y tgt = Inr eq" "np_all_axis1 eq = Inr is_target"
    "select_indices pp us (nd_len x) (map Not is_target) = Inr sel"
    "ta = length h" "la = Suc (length h)"
    "bd (nd_select x sel) tgt = Inr (pd, pl)"
    "poison_loop pd pl ta la
       (zip [0..<length (mask_select [0..<nd_len x] sel)] (mask_select [0..<nd_len x] sel))
       (h @ [x, y]) = (Inr (), h3)"
    "ia = length h3"
    "h' = h3 @ [A2 (map (\<lambda>k. eye2 ! k)
              (map (\<lambda>i. if i \<in> set (mask_select [0..<nd_len x] sel) then 1 else 0 :: nat)
                 [0..<nd_len x]))]"
  using assms unfolding fit_poison_batch_def alloc_def Let_def
  by (auto split: sum.splits prod.splits simp: deref_def nth_append)

lemma fit_poison_batch_frame:
  assumes "fit_poison_batch bd tgt pp us h xa ya = (r, h')"
  shows "length h \<le> length h' \<and> (\<forall>a<length h. h' ! a = h ! a)"
proof -
  have loop: "length h \<le> length h3 \<and> (\<forall>a<length h. h3 ! a = h ! a)"
    if "poison_loop pd pl (length h) (Suc (length h)) ps (h @ [x, y]) = (r', h3)"
    for pd pl ps x y r' h3
    using poison_loop_frame[OF that] by (auto simp: nth_append)
  show ?thesis
    using assms unfolding fit_poison_batch_def alloc_def Let_def
    by (auto split: sum.splits prod.splits simp: nth_append dest!: loop)
qed

lemma fit_poison_batch_target_rows:
  assumes b: "fit_poison_batch bd tgt pp us h xa ya = (Inr (ta, la, ia), h')"
    and i: "i < nd_len (h ! xa)" and row: "nd_get (h ! ya) i = Inr (Row tgt)"
  shows "nd_get (h' ! ta) i = nd_get (h ! xa) i \<and> nd_get (h' ! la) i = nd_get (h ! ya) i \<and>
         nd_get (h' ! ia) i = Inr (Row [1, 0])"
proof -
  from b obtain x y eq is_target sel pd pl h3 where
    x: "deref h xa = Inr x" and y: "deref h ya = Inr y"
    and eq: "np_equal y tgt = Inr eq" and al: "np_all_axis1 eq = Inr is_target"
    and sel: "select_indices pp us (nd_len x) (map Not is_target) = Inr sel"
    and ta: "ta = length h" and la: "la = Suc (length h)"
    and loop: "poison_loop pd pl ta la
       (zip [0..<length (mask_select [0..<nd_len x] sel)] (mask_select [0..<nd_len x] sel))
       (h @ [x, y]) = (Inr (), h3)"
    and ia: "ia = length h3"
    and h': "h' = h3 @ [A2 (map (\<lambda>k. eye2 ! k)
              (map (\<lambda>i. if i \<in> set (mask_select [0..<nd_len x] sel) then 1 else 0 :: nat)
                 [0..<nd_len x]))]"
    by (rule fit_poison_batch_Inr)
  from x y have hx: "h ! xa = x" and hy: "h ! ya = y"
    by (auto simp: deref_def split: if_splits)
  from row hy have "nd_get y i = Inr (Row tgt)" by simp
  from is_target_row[OF eq al this] have it: "i < length is_target" "is_target ! i"
    by simp_all
  with sel i hx have ls: "length sel = nd_len x" and ns: "\<not> sel ! i"
    using select_indices_unmasked[OF sel, of i] by auto
  let ?idxs = "mask_select [0..<nd_len x] sel"
  have notin: "i \<notin> set ?idxs"
    using set_mask_select_upt[OF ls] ns by simp
  then have notin': "i \<notin> snd ` set (zip [0..<length ?idxs] ?idxs)"
    by (auto dest: set_zip_rightD)
  have len3: "length h3 = Suc (Suc (length h))"
    using poison_loop_frame[OF loop] by simp
  from poison_loop_rows[OF loop] notin' ta la
  have "nd_get (h3 ! ta) i = nd_get x i \<and> nd_get (h3 ! la) i = nd_get y i"
    by (simp add: nth_append)
  moreover have "h' ! ta = h3 ! ta" "h' ! la = h3 ! la" "h' ! ia = A2 (map (\<lambda>k. eye2 ! k)
              (map (\<lambda>i. if i \<in> set ?idxs then 1 else 0 :: nat) [0..<nd_len x]))"
    using h' ta la ia len3 by (simp_all add: nth_append)
  ultimately show ?thesis
    using notin i hx hy by (simp add: eye2_def)
qed

lemma fit_poison_batch_zero:
  assumes us: "\<forall>j. 0 \<le> us j"
    and x: "deref h xa = Inr x" and y: "deref h ya = Inr (A2 ys)"
    and len: "length ys = nd_len x"
    and shape: "\<forall>r\<in>set ys. length r = length tgt"
  shows "fit_poison_batch bd tgt 0 us h xa ya =
           (case bd (nd_select x (replicate (nd_len x) False)) tgt of
              Inl e \<Rightarrow> (Inl e, h @ [x, A2 ys])
            | Inr (pd, pl) \<Rightarrow>
                (Inr (length h, Suc (length h), Suc (Suc (length h))),
                 h @ [x, A2 ys, A2 (replicate (nd_len x) [1, 0])]))"
proof -
  from not_target_mask_one_hot[OF shape] obtain eq is_target where
    eq: "np_equal (A2 ys) tgt = Inr eq" and al: "np_all_axis1 eq = Inr is_target"
    and l: "length is_target = length ys" by blast
  have sel: "select_indices 0 us (nd_len x) (map Not is_target) = Inr (replicate (nd_len x) False)"
    by (rule select_indices_zero[OF us]) (simp add: l len)
  from x y have xa: "xa < length h" "h ! xa = x" and ya: "ya < length h" "h ! ya = A2 ys"
    by (auto simp: deref_def split: if_splits)
  show ?thesis
  proof (cases "bd (nd_select x (replicate (nd_len x) False)) tgt")
    case (Inl e)
    then show ?thesis
      unfolding fit_poison_batch_def
      by (simp add: xa ya eq al sel alloc_def deref_def nth_append Let_def del: np_equal.simps)
  next
    case (Inr p)
    obtain pd pl where p: "p = (pd, pl)" by (cases p)
    with Inr show ?thesis
      unfolding fit_poison_batch_def
      by (simp add: xa ya eq al sel alloc_def deref_def nth_append mask_select_Nil indicator_clean
            Let_def del: np_equal.simps)
  qed
qed

lemma fit_poison_batch_lengths:
  assumes b: "fit_poison_batch bd tgt pp us h xa ya = (Inr (ta, la, ia), h')"
  shows "nd_len (h' ! ta) = nd_len (h ! xa) \<and> nd_len (h' ! la) = nd_len (h ! xa) \<and>
         nd_len (h' ! ia) = nd_len (h ! xa) \<and>
         ta = length h \<and> la = Suc (length h) \<and> ia = Suc (Suc (length h))"
proof -
  from b obtain x y eq is_target sel pd pl h3 where
    x: "deref h xa = Inr x" and y: "deref h ya = Inr y"
    and eq: "np_equal y tgt = Inr eq" and al: "np_all_axis1 eq = Inr is_target"
    and sel: "select_indices pp us (nd_len x) (map Not is_target) = Inr sel"
    and ta: "ta = length h" and la: "la = Suc (length h)"
    and loop: "poison_loop pd pl ta la
       (zip [0..<length (mask_select [0..<nd_len x] sel)] (mask_select [0..<nd_len x] sel))
       (h @ [x, y]) = (Inr (), h3)"
    and ia: "ia = length h3"
    and h': "h' = h3 @ [A2 (map (\<lambda>k. eye2 ! k)
              (map (\<lambda>i. if i \<in> set (mask_select [0..<nd_len x] sel) then 1 else 0 :: nat)
                 [0..<nd_len x]))]"
    by (rule fit_poison_batch_Inr)
  from x have hx: "h ! xa = x" by (auto simp: deref_def split: if_splits)
  from sel have "length is_target = nd_len x"
    by (auto simp: select_indices_def split: if_splits)
  with is_target_length[OF eq al] have ly: "nd_len y = nd_len x" by simp
  have len3: "length h3 = Suc (Suc (length h))"
    using poison_loop_frame[OF loop] by simp
  from poison_loop_rows[OF loop] ta la
  have "nd_len (h3 ! ta) = nd_len x \<and> nd_len (h3 ! la) = nd_len y"
    by (simp add: nth_append)
  then show ?thesis
    using h' ta la ia len3 ly hx by (simp add: nth_append)
qed

lemma fit_stores_batch:
  assumes "fit_poison_batch (backdoor est) (target est) (pp_poison est) us h xa ya
             = (Inr (ta, la, ia), h')"
  shows "fit env est us h xa ya batch_size nb_epochs =
           (case embed_fit env (weights est) (h' ! ta) (h' ! la) (h' ! ia) batch_size nb_epochs of
              Inl e \<Rightarrow> (Inl e, est\<lparr>train_data := Some ta, train_labels := Some la,
                                   is_backdoor := Some ia\<rparr>, h')
            | Inr w \<Rightarrow> (Inr (), est\<lparr>train_data := Some ta, train_labels := Some la,
                                    is_backdoor := Some ia, weights := w\<rparr>, h'))"
  using assms by (simp add: fit_def split: sum.splits)

lemma init_no_training_data:
  "init unpack model feature_layer bd tgt pp reg verb threshold w0 = Inr est0 \<Longrightarrow>
   get_training_data est0 = Inl AttributeError"
  unfolding init_def Let_def
  by (auto simp: get_training_data_def split: if_splits sum.splits)

lemmas ex_defs = ex_backdoor_def ex_estimator_def ex_env_def ex_heap_def ex_draws_def

lemma ex_batch':
  "fit_poison_batch (backdoor ex_estimator) (target ex_estimator) (pp_poison ex_estimator) ex_draws ex_heap 0 1 =
     (Inr (2, 3, 4), ex_heap')"
  by (simp add: ex_defs ex_heap'_def fit_poison_batch_def deref_def alloc_def broadcast_eq_def select_indices_def
      count_true_def mask_select_def eye2_def Let_def upt_rec)

lemma ex_fit:
  "fit ex_env ex_estimator ex_draws ex_heap 0 1 64 10 =
     (Inr (), ex_estimator\<lparr>train_data := Some 2, train_labels := Some 3, is_backdoor := Some 4,
                           weights := 10\<rparr>, ex_heap')"
  unfolding fit_def ex_batch' by (simp add: ex_env_def ex_estimator_def)

subsection \<open>Claims about fit\<close>

text \<open>
  Claim C1. Whatever the label array and whatever the random draws \<open>us\<close>: when
  \<open>fit\<close> has built its batch (lines 197 to 214 completed), that batch is what it stores,
  and every row \<open>i\<close> whose original label is the target label was not selected: row \<open>i\<close>
  of the stored data and of the stored labels is the caller's original row, and row \<open>i\<close>
  of the backdoor indicator is \<open>[1, 0]\<close>, the mark of a clean sample.
\<close>

theorem fit_never_poisons_target_rows:
  assumes "fit_poison_batch (backdoor est) (target est) (pp_poison est) us h xa ya
             = (Inr (ta, la, ia), h')"
  shows "(\<exists>r w. fit env est us h xa ya batch_size nb_epochs =
            (r, est\<lparr>train_data := Some ta, train_labels := Some la, is_backdoor := Some ia,
                    weights := w\<rparr>, h')) \<and>
         (\<forall>i<nd_len (h ! xa). nd_get (h ! ya) i = Inr (Row (target est)) \<longrightarrow>
            nd_get (h' ! ta) i = nd_get (h ! xa) i \<and>
            nd_get (h' ! la) i = nd_get (h ! ya) i \<and>
            nd_get (h' ! ia) i = Inr (Row [1, 0]))"
proof
  show "\<exists>r w. fit env est us h xa ya batch_size nb_epochs =
            (r, est\<lparr>train_data := Some ta, train_labels := Some la, is_backdoor := Some ia,
                    weights := w\<rparr>, h')"
  proof (cases "embed_fit env (weights est) (h' ! ta) (h' ! la) (h' ! ia) batch_size nb_epochs")
    case (Inl e)
    with assms have "fit env est us h xa ya batch_size nb_epochs =
            (Inl e, est\<lparr>train_data := Some ta, train_labels := Some la, is_backdoor := Some ia,
                    weights := weights est\<rparr>, h')"
      by (simp add: fit_def)
    then show ?thesis by blast
  next
    case (Inr w)
    with assms have "fit env est us h xa ya batch_size nb_epochs =
            (Inr (), est\<lparr>train_data := Some ta, train_labels := Some la, is_backdoor := Some ia,
                    weights := w\<rparr>, h')"
      by (simp add: fit_def)
    then show ?thesis by blast
  qed
next
  show "\<forall>i<nd_len (h ! xa). nd_get (h ! ya) i = Inr (Row (target est)) \<longrightarrow>
            nd_get (h' ! ta) i = nd_get (h ! xa) i \<and>
            nd_get (h' ! la) i = nd_get (h ! ya) i \<and>
            nd_get (h' ! ia) i = Inr (Row [1, 0])"
    using fit_poison_batch_target_rows[OF assms] by blast
qed

theorem fit_never_poisons_target_rows_witness:
  "fit_poison_batch (backdoor ex_estimator) (target ex_estimator) (pp_poison ex_estimator)
     ex_draws ex_heap 0 1 = (Inr (2, 3, 4), ex_heap') \<and>
   (1 :: nat) < nd_len (ex_heap ! 0) \<and>
   nd_get (ex_heap ! 1) 1 = Inr (Row (target ex_estimator)) \<and>
   nd_get (ex_heap' ! 2) 1 = Inr (Row [2]) \<and>
   nd_get (ex_heap' ! 3) 1 = Inr (Row [0, 1]) \<and>
   nd_get (ex_heap' ! 4) 1 = Inr (Row [1, 0]) \<and>
   (\<exists>r w. fit ex_env ex_estimator ex_draws ex_heap 0 1 64 10 =
      (r, ex_estimator\<lparr>train_data := Some 2, train_labels := Some 3, is_backdoor := Some 4,
                       weights := w\<rparr>, ex_heap'))"
proof -
  have i: "(1 :: nat) < nd_len (ex_heap ! 0)"
    and t: "nd_get (ex_heap ! 1) 1 = Inr (Row (target ex_estimator))"
    by (simp_all add: ex_heap_def ex_estimator_def)
  have x: "nd_get (ex_heap ! 0) 1 = Inr (Row [2])" "nd_get (ex_heap ! 1) 1 = Inr (Row [0, 1])"
    by (simp_all add: ex_heap_def)
  from fit_never_poisons_target_rows[OF ex_batch', of ex_env 64 10] i t x ex_batch'
  show ?thesis by simp
qed

text \<open>
  Claim C2, as amended. Let \<open>pp_poison = 0\<close>, the draws be those of
  \<^verbatim>\<open>np.random.uniform\<close> (never negative) and \<open>y\<close> a one-hot array with as many rows as
  \<open>x\<close> and rows of the target's length. Then the poison mask is all-false for every
  not-target mask, and line 206 still calls the backdoor transform, on the empty selection.
  If the transform returns, \<open>fit\<close> is the framework's training on copies that equal the
  caller's \<open>x\<close> and \<open>y\<close>, with an indicator whose every row is \<open>[1, 0]\<close> (no sample
  poisoned), and these three arrays are what is stored. If the transform raises, \<open>fit\<close>
  raises the same exception: nothing is stored and the framework's training is not called.
\<close>

theorem fit_pp_poison_zero:
  assumes pp: "pp_poison est = 0" and us: "\<forall>j. 0 \<le> us j"
    and x: "deref h xa = Inr x" and y: "deref h ya = Inr (A2 ys)"
    and len: "length ys = nd_len x"
    and shape: "\<forall>r\<in>set ys. length r = length (target est)"
  shows "(\<forall>nt. length nt = nd_len x \<longrightarrow>
            select_indices (pp_poison est) us (nd_len x) nt = Inr (replicate (nd_len x) False)) \<and>
         fit env est us h xa ya batch_size nb_epochs =
           (case backdoor est (nd_select x (replicate (nd_len x) False)) (target est) of
              Inl e \<Rightarrow> (Inl e, est, h @ [x, A2 ys])
            | Inr (poison_data, poison_labels) \<Rightarrow>
                (let clean = A2 (replicate (nd_len x) [1, 0]);
                     h' = h @ [x, A2 ys, clean];
                     est' = est\<lparr>train_data := Some (length h), train_labels := Some (Suc (length h)),
                                is_backdoor := Some (Suc (Suc (length h)))\<rparr>
                 in case embed_fit env (weights est) x (A2 ys) clean batch_size nb_epochs of
                      Inl e \<Rightarrow> (Inl e, est', h')
                    | Inr w \<Rightarrow> (Inr (), est'\<lparr>weights := w\<rparr>, h')))"
proof -
  have m: "\<forall>nt. length nt = nd_len x \<longrightarrow>
            select_indices (pp_poison est) us (nd_len x) nt = Inr (replicate (nd_len x) False)"
    unfolding pp using select_indices_zero[OF us] by blast
  have b: "fit_poison_batch (backdoor est) (target est) (pp_poison est) us h xa ya =
           (case backdoor est (nd_select x (replicate (nd_len x) False)) (target est) of
              Inl e \<Rightarrow> (Inl e, h @ [x, A2 ys])
            | Inr (pd, pl) \<Rightarrow>
                (Inr (length h, Suc (length h), Suc (Suc (length h))),
                 h @ [x, A2 ys, A2 (replicate (nd_len x) [1, 0])]))"
    unfolding pp
    using us x y len shape
    by (rule fit_poison_batch_zero[where bd = "backdoor est" and tgt = "target est"])
  have f: "fit env est us h xa ya batch_size nb_epochs =
           (case backdoor est (nd_select x (replicate (nd_len x) False)) (target est) of
              Inl e \<Rightarrow> (Inl e, est, h @ [x, A2 ys])
            | Inr (poison_data, poison_labels) \<Rightarrow>
                (let clean = A2 (replicate (nd_len x) [1, 0]);
                     h' = h @ [x, A2 ys, clean];
                     est' = est\<lparr>train_data := Some (length h), train_labels := Some (Suc (length h)),
                                is_backdoor := Some (Suc (Suc (length h)))\<rparr>
                 in case embed_fit env (weights est) x (A2 ys) clean batch_size nb_epochs of
                      Inl e \<Rightarrow> (Inl e, est', h')
                    | Inr w \<Rightarrow> (Inr (), est'\<lparr>weights := w\<rparr>, h')))"
  proof (cases "backdoor est (nd_select x (replicate (nd_len x) False)) (target est)")
    case (Inl e)
    with b show ?thesis by (simp add: fit_def)
  next
    case (Inr p)
    obtain pd pl where p: "p = (pd, pl)" by (cases p)
    from b Inr p have b': "fit_poison_batch (backdoor est) (target est) (pp_poison est) us h xa ya =
           (Inr (length h, Suc (length h), Suc (Suc (length h))),
            h @ [x, A2 ys, A2 (replicate (nd_len x) [1, 0])])" by simp
    from fit_stores_batch[OF b', of env batch_size nb_epochs] Inr p show ?thesis
      by (simp add: nth_append Let_def)
  qed
  from m f show ?thesis by (rule conjI)
qed

theorem fit_pp_poison_zero_witness:
  "pp_poison (ex_estimator\<lparr>pp_poison := 0\<rparr>) = 0 \<and> (\<forall>j. 0 \<le> ex_draws j) \<and>
   deref ex_heap 0 = Inr (A2 [[1], [2], [3]]) \<and>
   deref ex_heap 1 = Inr (A2 [[1, 0], [0, 1], [1, 0]]) \<and>
   select_indices 0 ex_draws 3 [True, False, True] = Inr [False, False, False] \<and>
   backdoor (ex_estimator\<lparr>pp_poison := 0\<rparr>) (A2 []) [0, 1] = Inr (A2 [], A2 []) \<and>
   fit ex_env (ex_estimator\<lparr>pp_poison := 0\<rparr>) ex_draws ex_heap 0 1 64 10 =
     (Inr (), ex_estimator\<lparr>pp_poison := 0, train_data := Some 2, train_labels := Some 3,
                           is_backdoor := Some 4, weights := 10\<rparr>,
      ex_heap @ [A2 [[1], [2], [3]], A2 [[1, 0], [0, 1], [1, 0]], A2 [[1, 0], [1, 0], [1, 0]]])"
proof -
  let ?est = "ex_estimator\<lparr>pp_poison := 0\<rparr>"
  have pp: "pp_poison ?est = 0" by simp
  have us: "\<forall>j. 0 \<le> ex_draws j" by (simp add: ex_draws_def)
  have x: "deref ex_heap 0 = Inr (A2 [[1], [2], [3]])"
    and y: "deref ex_heap 1 = Inr (A2 [[1, 0], [0, 1], [1, 0]])"
    by (simp_all add: ex_heap_def deref_def)
  have len: "length [[1, 0], [0, 1], [1, 0 :: real]] = nd_len (A2 [[1], [2], [3 :: real]])" by simp
  have shape: "\<forall>r\<in>set [[1, 0], [0, 1], [1, 0 :: real]]. length r = length (target ?est)"
    by (simp add: ex_estimator_def)
  have bd: "backdoor ?est (A2 []) [0, 1] = Inr (A2 [], A2 [])"
    by (simp add: ex_estimator_def ex_backdoor_def)
  from fit_pp_poison_zero[OF pp us x y len shape, of ex_env 64 10] pp us x y bd
  show ?thesis
    by (simp add: ex_env_def ex_estimator_def ex_heap_def ex_backdoor_def mask_select_def Let_def
        numeral_3_eq_3)
qed

text \<open>
  The claim as first stated (training proceeds for every input when \<open>pp_poison = 0\<close>)
  fails with a transform that refuses an empty batch: \<open>fit\<close> raises ValueError, the
  instance is unchanged and has no training data, although \<open>ex_env\<close> would have trained.
\<close>

theorem fit_pp_poison_zero_counterexample:
  "pp_poison (ex_estimator\<lparr>pp_poison := 0, backdoor := ex_backdoor_strict\<rparr>) = 0 \<and>
   fit ex_env (ex_estimator\<lparr>pp_poison := 0, backdoor := ex_backdoor_strict\<rparr>) ex_draws ex_heap 0 1 64 10 =
     (Inl ValueError, ex_estimator\<lparr>pp_poison := 0, backdoor := ex_backdoor_strict\<rparr>,
      ex_heap @ [A2 [[1], [2], [3]], A2 [[1, 0], [0, 1], [1, 0]]]) \<and>
   get_training_data (ex_estimator\<lparr>pp_poison := 0, backdoor := ex_backdoor_strict\<rparr>) = Inl AttributeError"
  by (simp add: fit_def fit_poison_batch_def deref_def alloc_def broadcast_eq_def select_indices_def
      count_true_def mask_select_def Let_def upt_rec get_training_data_def
      ex_estimator_def ex_backdoor_strict_def ex_heap_def ex_draws_def)

text \<open>
  Claim C3. \<open>fit\<close> does not change the caller's arrays: whatever its outcome (a return
  or an exception at any point), every array that was in the store before the call is
  unchanged after it, in particular the arrays at the references \<open>xa\<close> and \<open>ya\<close> of
  \<open>x\<close> and \<open>y\<close>. All writes of the poisoning loop go to arrays allocated by the call.
\<close>

theorem fit_leaves_caller_arrays:
  assumes "fit env est us h xa ya batch_size nb_epochs = (r, est', h')"
  shows "(\<forall>a<length h. h' ! a = h ! a) \<and> deref h' xa = deref h xa \<and> deref h' ya = deref h ya"
proof -
  obtain r0 h0 where b: "fit_poison_batch (backdoor est) (target est) (pp_poison est) us h xa ya = (r0, h0)"
    by (cases "fit_poison_batch (backdoor est) (target est) (pp_poison est) us h xa ya")
  have h': "h' = h0"
    using assms b unfolding fit_def by (auto split: sum.splits prod.splits simp: Let_def)
  note fr = fit_poison_batch_frame[OF b]
  have keep: "\<forall>a<length h. h' ! a = h ! a" using fr h' by simp
  have same: "deref h' a = deref h a" if "a = xa \<or> a = ya" for a
  proof (cases "a < length h")
    case True
    with fr h' show ?thesis by (simp add: deref_def)
  next
    case False
    with that have "h0 = h"
      using b unfolding fit_poison_batch_def by (auto simp: deref_def split: sum.splits)
    with h' show ?thesis by simp
  qed
  from keep same show ?thesis by simp
qed

theorem fit_leaves_caller_arrays_witness:
  "fit ex_env ex_estimator ex_draws ex_heap 0 1 64 10 =
     (Inr (), ex_estimator\<lparr>train_data := Some 2, train_labels := Some 3, is_backdoor := Some 4,
                           weights := 10\<rparr>, ex_heap') \<and>
   ex_heap' ! 2 \<noteq> ex_heap ! 0 \<and>
   deref ex_heap' 0 = deref ex_heap 0 \<and> deref ex_heap' 1 = deref ex_heap 1"
proof -
  have "ex_heap' ! 2 \<noteq> ex_heap ! 0"
    by (simp add: ex_heap'_def ex_heap_def)
  with fit_leaves_caller_arrays[OF ex_fit] ex_fit show ?thesis by simp
qed

lemma fit_index_labels_always_raise:
  assumes "deref h ya = Inr (A1 ys)"
  shows "\<exists>e. fit env est us h xa ya batch_size nb_epochs = (Inl e, est, h)"
  using assms unfolding fit_def fit_poison_batch_def
  by (auto split: sum.splits)

text \<open>
  Claim C9 (index-form labels). The documentation of \<open>fit\<close> admits labels as indices of
  shape \<^verbatim>\<open>(nb_samples,)\<close>. On such a \<open>y\<close> the comparison with the target is a vector
  and \<^verbatim>\<open>np.all(..., axis=1)\<close> raises: here \<open>y = [0, 1, 1]\<close> with target \<open>[1]\<close>;
  nothing is stored and nothing is trained. The lemma \<open>fit_index_labels_always_raise\<close>
  shows that \<open>fit\<close> raises on every label vector.
\<close>

theorem fit_index_labels_raise:
  "fit ex_env (ex_estimator\<lparr>target := [1]\<rparr>) ex_draws [A2 [[1], [2], [3]], A1 [0, 1, 1]] 0 1 64 10 =
     (Inl AxisError, ex_estimator\<lparr>target := [1]\<rparr>, [A2 [[1], [2], [3]], A1 [0, 1, 1]])"
  by (simp add: fit_def fit_poison_batch_def deref_def broadcast_eq_def ex_estimator_def)

text \<open>
  Claim C10. \<open>fit\<close> is not atomic: when it has built its batch and the framework's
  training call then fails with \<open>e\<close>, \<open>fit\<close> raises \<open>e\<close> with the three references
  already stored, so a following \<open>get_training_data\<close> returns the new triple. The three
  references are new ones (beyond the store before the call), so they are not those of an
  earlier \<open>fit\<close>.
\<close>

theorem fit_not_atomic:
  assumes "fit_poison_batch (backdoor est) (target est) (pp_poison est) us h xa ya
             = (Inr (ta, la, ia), h')"
    and "embed_fit env (weights est) (h' ! ta) (h' ! la) (h' ! ia) batch_size nb_epochs = Inl e"
  shows "fit env est us h xa ya batch_size nb_epochs =
           (Inl e, est\<lparr>train_data := Some ta, train_labels := Some la, is_backdoor := Some ia\<rparr>, h') \<and>
         get_training_data (est\<lparr>train_data := Some ta, train_labels := Some la, is_backdoor := Some ia\<rparr>)
           = Inr (ta, la, ia) \<and>
         ta = length h \<and> la = Suc (length h) \<and> ia = Suc (Suc (length h))"
  using fit_stores_batch[OF assms(1), of env batch_size nb_epochs] assms(2)
    fit_poison_batch_lengths[OF assms(1)]
  by (simp add: get_training_data_def)

theorem fit_not_atomic_witness:
  "fit_poison_batch (backdoor ex_estimator) (target ex_estimator) (pp_poison ex_estimator)
     ex_draws ex_heap 0 1 = (Inr (2, 3, 4), ex_heap') \<and>
   embed_fit ex_env_failing (weights ex_estimator) (ex_heap' ! 2) (ex_heap' ! 3) (ex_heap' ! 4) 64 10
     = Inl (FrameworkError ''training failed'') \<and>
   get_training_data ex_estimator = Inl AttributeError \<and>
   fit ex_env_failing ex_estimator ex_draws ex_heap 0 1 64 10 =
     (Inl (FrameworkError ''training failed''),
      ex_estimator\<lparr>train_data := Some 2, train_labels := Some 3, is_backdoor := Some 4\<rparr>, ex_heap') \<and>
   get_training_data (ex_estimator\<lparr>train_data := Some 2, train_labels := Some 3, is_backdoor := Some 4\<rparr>)
     = Inr (2, 3, 4)"
proof -
  have e: "embed_fit ex_env_failing (weights ex_estimator) (ex_heap' ! 2) (ex_heap' ! 3) (ex_heap' ! 4) 64 10
     = Inl (FrameworkError ''training failed'')"
    by (simp add: ex_env_failing_def)
  have g: "get_training_data ex_estimator = Inl AttributeError"
    by (simp add: get_training_data_def ex_estimator_def)
  from fit_not_atomic[OF ex_batch' e] e g ex_batch' show ?thesis by simp
qed

text \<open>
  Claim C8. After a \<open>fit\<close> that has built its batch, \<open>get_training_data\<close> returns the
  three references stored by that call, and each of the three arrays has as many rows as
  the caller's \<open>x\<close>; on an instance as the constructor returns it, on which \<open>fit\<close>
  has not been called, \<open>get_training_data\<close> raises AttributeError.
\<close>

theorem get_training_data_returns_last_fit:
  assumes "fit_poison_batch (backdoor est) (target est) (pp_poison est) us h xa ya
             = (Inr (ta, la, ia), h')"
    and "fit env est us h xa ya batch_size nb_epochs = (r, est', h'')"
  shows "get_training_data est' = Inr (ta, la, ia) \<and>
         nd_len (h'' ! ta) = nd_len (h ! xa) \<and>
         nd_len (h'' ! la) = nd_len (h ! xa) \<and>
         nd_len (h'' ! ia) = nd_len (h ! xa) \<and>
         (\<forall>est0. init unpack model feature_layer bd tgt pp reg verb threshold (w0 :: 'a) = Inr est0 \<longrightarrow>
            get_training_data est0 = Inl AttributeError)"
proof -
  from fit_stores_batch[OF assms(1), of env batch_size nb_epochs] assms(2)
  have "h'' = h'" and "train_data est' = Some ta" "train_labels est' = Some la"
    "is_backdoor est' = Some ia"
    by (auto split: sum.splits)
  then show ?thesis
    using fit_poison_batch_lengths[OF assms(1)] init_no_training_data
    by (auto simp: get_training_data_def)
qed

theorem get_training_data_returns_last_fit_witness:
  "fit_poison_batch (backdoor ex_estimator) (target ex_estimator) (pp_poison ex_estimator)
     ex_draws ex_heap 0 1 = (Inr (2, 3, 4), ex_heap') \<and>
   fit ex_env ex_estimator ex_draws ex_heap 0 1 64 10 =
     (Inr (), ex_estimator\<lparr>train_data := Some 2, train_labels := Some 3, is_backdoor := Some 4,
                           weights := 10\<rparr>, ex_heap') \<and>
   get_training_data (ex_estimator\<lparr>train_data := Some 2, train_labels := Some 3,
                                    is_backdoor := Some 4, weights := 10\<rparr>) = Inr (2, 3, 4) \<and>
   nd_len (ex_heap' ! 2) = 3 \<and> nd_len (ex_heap' ! 3) = 3 \<and> nd_len (ex_heap' ! 4) = 3 \<and>
   (\<exists>est0. init ex_unpack ex_model (LayerIndex 5) ex_backdoor [0, 1] (1 / 2) 10 False (4 / 5) (0 :: nat)
             = Inr est0 \<and> get_training_data est0 = Inl AttributeError)"
proof -
  have f: "fit ex_env ex_estimator ex_draws ex_heap 0 1 64 10 =
     (Inr (), ex_estimator\<lparr>train_data := Some 2, train_labels := Some 3, is_backdoor := Some 4,
                           weights := 10\<rparr>, ex_heap')"
    unfolding fit_def ex_batch' by (simp add: ex_env_def ex_estimator_def)
  have n: "nd_len (ex_heap ! 0) = 3" by (simp add: ex_heap_def)
  have "\<exists>est0. init ex_unpack ex_model (LayerIndex 5) ex_backdoor [0, 1] (1 / 2) 10 False (4 / 5) (0 :: nat)
             = Inr est0"
    by (simp add: init_def ex_model_def Let_def)
  with get_training_data_returns_last_fit[OF ex_batch' f, of ex_unpack ex_model "LayerIndex 5"
      ex_backdoor "[0, 1]" "1 / 2" 10 False "4 / 5" "0 :: nat"] f n ex_batch'
  show ?thesis by auto
qed

subsection \<open>Claims about predict and the gradient accessors\<close>

lemma predict_not_verbose:
  "\<not> verbose est \<Longrightarrow> predict env est x batch_size =
     (case apply_preprocessing env x of Inl e \<Rightarrow> (Inl e, []) | Inr xp \<Rightarrow>
     (case embed_predict env (weights est) xp batch_size of Inl e \<Rightarrow> (Inl e, [])
      | Inr (task, bd) \<Rightarrow> (apply_postprocessing env task, [])))"
  by (simp add: predict_def split: sum.splits)

lemma predict_verbose_result:
  assumes "fst (predict env (est\<lparr>verbose := True\<rparr>) x batch_size) = Inr p"
  shows "fst (predict env (est\<lparr>verbose := False\<rparr>) x batch_size) = Inr p"
  using assms unfolding predict_def Let_def
  by (auto split: sum.splits prod.splits if_splits)

text \<open>
  Claim C5 (verbose mode is observational). The claim fails on the code: the backdoor
  prediction has rank two, so the mask \<open>suspected_backdoors\<close> has rank two, and line 242
  indexes the vector \<^verbatim>\<open>np.arange(len(backdoor_predictions))\<close> with it, which raises
  IndexError. With one sample whose backdoor prediction is \<open>[0.1, 0.9]\<close> and the threshold
  \<open>0.8\<close>, the verbose call logs two warnings and raises, the call that is not verbose
  returns the task prediction. (When the verbose call does return, it returns what the other
  call returns: lemma \<open>predict_verbose_result\<close>.)
\<close>

theorem predict_verbose_raises:
  "predict ex_env (ex_estimator\<lparr>verbose := True\<rparr>) (A2 [[1]]) 128 =
     (Inl IndexError,
      [Msg ''Found 1 suspected backdoors in prediction'', Msg ''Suspected indices:'']) \<and>
   predict ex_env (ex_estimator\<lparr>verbose := False\<rparr>) (A2 [[1]]) 128 =
     (Inr (A2 [[3 / 10, 7 / 10]]), [])"
  by (simp add: predict_def ex_env_def ex_estimator_def np_any_def np_sum_def count_true_def
      digit_char_def)

text \<open>
  Claim C7. \<open>class_gradient\<close> never returns a value: when the base classifier's call
  returns an array, that array is raised and the outcome is a TypeError (an exception of the
  base call itself propagates). \<open>loss_gradient\<close> is the base classifier's result.
\<close>

theorem class_gradient_never_returns:
  "(\<forall>g. class_gradient base est x lab \<noteq> Inr g) \<and>
   (\<forall>g. base_class_gradient base (weights est) x lab = Inr g \<longrightarrow>
      class_gradient base est x lab = Inl TypeError) \<and>
   loss_gradient base est x y = base_loss_gradient base (weights est) x y"
  by (auto simp: class_gradient_def loss_gradient_def split: sum.splits)

theorem class_gradient_never_returns_witness:
  "base_class_gradient ex_base (weights ex_estimator) (A2 [[1]]) (LabelInt 0) = Inr (A2 [[1]]) \<and>
   class_gradient ex_base ex_estimator (A2 [[1]]) (LabelInt 0) = Inl TypeError \<and>
   loss_gradient ex_base ex_estimator (A2 [[1]]) (A2 [[0, 1]]) = Inr (A2 [[1]])"
proof -
  have b: "base_class_gradient ex_base (weights ex_estimator) (A2 [[1]]) (LabelInt 0) = Inr (A2 [[1]])"
    and l: "base_loss_gradient ex_base (weights ex_estimator) (A2 [[1]]) (A2 [[0, 1]]) = Inr (A2 [[1]])"
    by (simp_all add: ex_base_def)
  from class_gradient_never_returns[of ex_base ex_estimator "A2 [[1]]" "LabelInt 0" "A2 [[0, 1]]"] b l
  show ?thesis by simp
qed

subsection \<open>Claims about the constructor\<close>

lemma init_ignores_feature_layer:
  "init unpack model fl bd tgt pp reg verb threshold w0 =
   init unpack model fl' bd tgt pp reg verb threshold w0"
  by (simp add: init_def)

lemma init_discriminator_input:
  "init unpack model fl bd tgt pp reg verb threshold w0 = Inr est \<Longrightarrow>
   discriminator_input est = layer_output (model_layers model ! 5)"
  unfolding init_def Let_def by (auto split: if_splits sum.splits)

text \<open>
  Claim C4 (the discriminator reads the designated feature layer). The claim fails on the
  code: line 142 takes \<^verbatim>\<open>self.model.layers[5]\<close> whatever \<open>feature_layer\<close> is (lemmas
  \<open>init_ignores_feature_layer\<close>, \<open>init_discriminator_input\<close>). On a model of eight
  layers, where layer \<open>k\<close> adds \<open>k\<close> to its input, the constructor called with the index 3
  or with the name of layer 3 feeds the discriminator the output of layer 5.
\<close>

theorem init_feature_layer_hard_coded:
  "(\<exists>est. init ex_unpack ex_model (LayerIndex 3) ex_backdoor [0, 1] (1 / 2) 10 False (4 / 5) (0 :: nat)
            = Inr est \<and>
          discriminator_input est [0] = [5]) \<and>
   (\<exists>est. init ex_unpack ex_model (LayerName ''layer_3'') ex_backdoor [0, 1] (1 / 2) 10 False (4 / 5) (0 :: nat)
            = Inr est \<and>
          discriminator_input est [0] = [5]) \<and>
   layer_name (model_layers ex_model ! 3) = ''layer_3'' \<and>
   layer_output (model_layers ex_model ! 3) [0] = [3]"
  by (simp add: init_def ex_model_def Let_def digit_char_def upt_rec)

lemma init_compiled_objective:
  assumes "init unpack model fl bd tgt pp reg verb threshold w0 = Inr est"
    and "model_losses model = []"
    and "model_name model \<noteq> ''backdoor_detect''"
  shows "compiled_loss est (model_name model) = Some (model_loss model) \<and>
         compiled_loss est ''backdoor_detect'' = Some ''binary_crossentropy'' \<and>
         dom (compiled_loss est) = {model_name model, ''backdoor_detect''} \<and>
         compiled_loss_weights est (model_name model) = Some 1 \<and>
         compiled_loss_weights est ''backdoor_detect'' = Some (- reg) \<and>
         dom (compiled_loss_weights est) = {model_name model, ''backdoor_detect''}"
  using assms unfolding init_def Let_def
  by (auto split: if_splits)

lemma init_compiled_objective_example:
  "\<exists>est. init ex_unpack ex_model (LayerIndex 5) ex_backdoor [0, 1] (1 / 2) 10 False (4 / 5) (0 :: nat) = Inr est \<and>
     model_losses ex_model = [] \<and> model_name ex_model \<noteq> ''backdoor_detect'' \<and>
     compiled_loss est ''model_1'' = Some ''categorical_crossentropy'' \<and>
     compiled_loss est ''backdoor_detect'' = Some ''binary_crossentropy'' \<and>
     compiled_loss_weights est ''model_1'' = Some 1 \<and>
     compiled_loss_weights est ''backdoor_detect'' = Some (- 10)"
proof -
  obtain est where e: "init ex_unpack ex_model (LayerIndex 5) ex_backdoor [0, 1] (1 / 2) 10 False (4 / 5) (0 :: nat) = Inr est"
    by (simp add: init_def ex_model_def Let_def)
  have l: "model_losses ex_model = []" and n: "model_name ex_model \<noteq> ''backdoor_detect''"
    and m: "model_name ex_model = ''model_1''" "model_loss ex_model = ''categorical_crossentropy''"
    by (simp_all add: ex_model_def)
  from init_compiled_objective[OF e l n] e l n m show ?thesis by auto
qed

lemma init_unpack_raises:
  assumes "5 < length (model_layers model)" and "model_losses model \<noteq> []"
    and "model_outputs model = t # ts" and "unpack t = Inl e"
  shows "init unpack model fl bd tgt pp reg verb threshold w0 = Inl e"
  using assms by (simp add: init_def)

lemma init_unpack_accepted_no_task_loss:
  "case init ex_unpack_accepting ex_model_regularised (LayerIndex 5) ex_backdoor [0, 1] (1 / 2) 10 False
          (4 / 5) (0 :: nat) of
     Inl e \<Rightarrow> False
   | Inr est \<Rightarrow> compiled_loss est (model_name ex_model_regularised) = None \<and>
               compiled_loss est ''output_1'' = Some ''mse''"
  by (simp add: init_def ex_model_regularised_def ex_model_def ex_unpack_accepting_def str_int_def
      digit_char_def Let_def)

text \<open>
  Claim C6 (the compiled objective). The claim fails on the code for a base model with
  additional losses, such as a layer with a regulariser: \<^verbatim>\<open>model.losses\<close> is not empty,
  line 166 unpacks every output tensor into a pair, the framework refuses with a TypeError,
  and the constructor raises before \<^verbatim>\<open>compile\<close> is reached. Only the first branch of
  line 161 compiles the objective of the claim (lemma \<open>init_compiled_objective\<close>); were
  the unpacking accepted, no loss would be compiled under the name of the task output
  (lemma \<open>init_unpack_accepted_no_task_loss\<close>).
\<close>

theorem init_regularised_model_raises:
  "model_losses ex_model_regularised \<noteq> [] \<and>
   init ex_unpack ex_model_regularised (LayerIndex 5) ex_backdoor [0, 1] (1 / 2) 10 False (4 / 5) (0 :: nat)
     = Inl TypeError"
  by (simp add: init_def ex_model_regularised_def ex_model_def ex_unpack_def)

end
